theory Spec2Isabelle
  imports Main "HOL-Library.Sublist"
begin

section \<open>Errors\<close>

text \<open>
  The package html2pdf has two exported functions, \<open>ConvertHtmlFileToPdf\<close> and
  \<open>ConvertHtmlToPdf\<close>, one option constructor \<open>WithLogger\<close> and one sentinel error
  \<open>ErrHTMLFileNotFound\<close>. Everything else is done by collaborators that are not part
  of the package: the file system (\<open>os.ReadFile\<close>), the browser driven through chromedp,
  and the Go runtime (\<open>sync.WaitGroup\<close>, \<open>fmt.Errorf\<close>).

  Errors that collaborators produce are values of \<open>ext_error\<close>; the package's own error
  values are \<open>error\<close>. The split is the one Go's types make: no collaborator can
  return the package's sentinel, which is a pointer allocated by the package itself.
\<close>

datatype errno = ENOENT | EACCES | EISDIR | ENOTDIR | EIO

datatype ext_error =
    PathError string string errno
  | Canceled
  | DeadlineExceeded
  | ProtocolError string

datatype error =
    ErrHTMLFileNotFound
  | External ext_error
  | WrapError string error

fun errno_Error :: "errno \<Rightarrow> string" where
  "errno_Error ENOENT = ''no such file or directory''"
| "errno_Error EACCES = ''permission denied''"
| "errno_Error EISDIR = ''is a directory''"
| "errno_Error ENOTDIR = ''not a directory''"
| "errno_Error EIO = ''input/output error''"

fun ext_Error :: "ext_error \<Rightarrow> string" where
  "ext_Error (PathError opn path en) = opn @ '' '' @ path @ '': '' @ errno_Error en"
| "ext_Error Canceled = ''context canceled''"
| "ext_Error DeadlineExceeded = ''context deadline exceeded''"
| "ext_Error (ProtocolError msg) = msg"

text \<open>The method \<open>Error()\<close> of an error value.\<close>

fun Error :: "error \<Rightarrow> string" where
  "Error ErrHTMLFileNotFound = ''html file not found''"
| "Error (External e) = ext_Error e"
| "Error (WrapError msg cause) = msg"

text \<open>
  \<open>fmt.Errorf(format + "%w", err)\<close>: the message is the format text followed by the cause's
  message, and the cause stays reachable through \<open>Unwrap\<close>.
\<close>

definition Errorf_w :: "string \<Rightarrow> error \<Rightarrow> error" where
  "Errorf_w format err = WrapError (format @ Error err) err"

fun Unwrap :: "error \<Rightarrow> error option" where
  "Unwrap (WrapError msg cause) = Some cause"
| "Unwrap ErrHTMLFileNotFound = None"
| "Unwrap (External e) = None"

text \<open>\<open>errors.Is\<close>: the target is the error itself or one of the causes it wraps.\<close>

fun errors_Is :: "error \<Rightarrow> error \<Rightarrow> bool" where
  "errors_Is (WrapError msg cause) target =
     (WrapError msg cause = target \<or> errors_Is cause target)"
| "errors_Is ErrHTMLFileNotFound target = (ErrHTMLFileNotFound = target)"
| "errors_Is (External e) target = (External e = target)"

text \<open>
  \<open>os.IsNotExist\<close>: true of a path error whose system error is \<open>ENOENT\<close>, false of
  every other error.
\<close>

fun os_IsNotExist :: "ext_error \<Rightarrow> bool" where
  "os_IsNotExist (PathError opn path en) = (en = ENOENT)"
| "os_IsNotExist Canceled = False"
| "os_IsNotExist DeadlineExceeded = False"
| "os_IsNotExist (ProtocolError msg) = False"

section \<open>Options\<close>

text \<open>
  A logging sink is a Go function value \<open>func(string, ...interface{})\<close>; the model
  keeps its identity only. The field \<open>logger\<close> may hold \<open>nil\<close>, which is \<open>None\<close>.
\<close>

datatype sink = log_Printf | Custom nat

record options =
  logger :: "sink option"

type_synonym Option = "options \<Rightarrow> options"

definition WithLogger :: "sink option \<Rightarrow> Option" where
  "WithLogger l = (\<lambda>opts. opts\<lparr>logger := l\<rparr>)"

definition getDefaultOptions :: options where
  "getDefaultOptions = \<lparr>logger = Some log_Printf\<rparr>"

section \<open>Collaborators\<close>

type_synonym bytes = string
type_synonym frame_id = string

text \<open>
  A context is given by what \<open>ctx.Err()\<close> answers when the call starts (\<open>None\<close> while
  the context is live). A cancellation that happens later reaches the call as the
  occurrence \<open>CtxDone\<close> below.
\<close>

type_synonym "context" = "ext_error option"

datatype event = EventLoadEventFired | EventOther nat

datatype occurrence = Deliver event | CtxDone

text \<open>
  The browser behind chromedp, as a deterministic machine over a state \<open>'b\<close>: one
  reply function per protocol command the package issues. \<open>allocate\<close> is what
  \<open>chromedp.Run\<close> does first on a fresh context (start the browser and attach a
  target). \<open>getFrameTree\<close> answers with an error, or with the id of the root frame
  of the tree, or with a reply that holds no frame tree (\<open>Inr None\<close>: the pointer
  \<open>frameTree\<close> or its field \<open>Frame\<close> is \<open>nil\<close>). \<open>printToPDF\<close> answers with
  the pair that \<open>PrintToPDFParams.Do\<close> returns, data and error. \<open>schedule\<close> lists,
  in order, what happens from the moment the listener is registered until the session is
  torn down: the events of the target, and the cancellation of the context. After the last
  occurrence nothing happens any more.
\<close>

record 'b transport =
  allocate :: "context \<Rightarrow> ext_error + 'b"
  navigate :: "'b \<Rightarrow> string \<Rightarrow> ext_error option \<times> 'b"
  getFrameTree :: "'b \<Rightarrow> (ext_error + frame_id option) \<times> 'b"
  setDocumentContent :: "'b \<Rightarrow> frame_id \<Rightarrow> string \<Rightarrow> ext_error option \<times> 'b"
  schedule :: "'b \<Rightarrow> occurrence list"
  printToPDF :: "'b \<Rightarrow> bool \<Rightarrow> (bytes \<times> ext_error option) \<times> 'b"

text \<open>What a call does to the world, in the order it does it.\<close>

datatype step =
    ReadFile string
  | CallOption nat
  | NewContext "context" "sink option"
  | Allocate
  | Navigate string
  | ListenTarget
  | GetFrameTree
  | SetDocumentContent frame_id string
  | Listener event
  | WaitDone
  | PrintToPDF bool
  | Cancel

text \<open>
  A call returns its two results, or never returns because it waits for something that
  does not come, or panics in its own goroutine (the panic unwinds the call, running what
  it deferred, and reaches the caller), or the process dies of a panic in another
  goroutine. In a result the bytes are a list; the \<open>nil\<close> slice and the empty slice,
  both of length zero, are the empty list.
\<close>

datatype 'a outcome = Returns 'a | Blocks | Panics | Dies

type_synonym result = "bytes \<times> error option"

section \<open>sync.WaitGroup and the listener\<close>

text \<open>
  The counter of a \<open>sync.WaitGroup\<close>. \<open>Add\<close> panics when the counter would become
  negative; \<open>Done\<close> is \<open>Add(-1)\<close>.
\<close>

type_synonym WaitGroup = int

definition wg_Add :: "int \<Rightarrow> WaitGroup \<Rightarrow> WaitGroup option" where
  "wg_Add d wg = (if wg + d < 0 then None else Some (wg + d))"

definition wg_Done :: "WaitGroup \<Rightarrow> WaitGroup option" where
  "wg_Done wg = wg_Add (- 1) wg"

text \<open>
  The callback given to \<open>chromedp.ListenTarget\<close> (lines 68 to 72): a load event calls
  \<open>wg.Done()\<close>, any other event is ignored.
\<close>

definition listener :: "event \<Rightarrow> WaitGroup \<Rightarrow> WaitGroup option" where
  "listener ev wg = (if ev = EventLoadEventFired then wg_Done wg else Some wg)"

text \<open>
  The listener is registered on the context (\<open>chromedp.ListenTarget(ctx, ...)\<close>, line
  68): the callback runs for the events that come while the context is live, and for none
  that come after its cancellation. \<open>before_cancel\<close> is the part of a schedule that
  the callback can see.
\<close>

definition before_cancel :: "occurrence list \<Rightarrow> occurrence list" where
  "before_cancel occs = takeWhile (\<lambda>oc. oc \<noteq> CtxDone) occs"

text \<open>
  \<open>wg.Wait()\<close>: returns once the counter is zero. While it blocks, the occurrences of
  the schedule happen one by one. An event runs the callback. The cancellation of the
  context changes nothing the wait looks at, and it ends the deliveries: when it comes
  while the counter is still positive, nothing can release the wait any more. The same
  holds when the schedule is exhausted. The result carries the counter and the occurrences
  still to come.
\<close>

fun wg_Wait :: "WaitGroup \<Rightarrow> occurrence list
    \<Rightarrow> step list \<times> (WaitGroup \<times> occurrence list) outcome" where
  "wg_Wait wg [] = (if wg = 0 then ([], Returns (wg, [])) else ([], Blocks))"
| "wg_Wait wg (oc # rest) =
     (if wg = 0 then ([], Returns (wg, oc # rest))
      else (case oc of
              CtxDone \<Rightarrow> ([], Blocks)
            | Deliver ev \<Rightarrow>
                (case listener ev wg of
                   None \<Rightarrow> ([Listener ev], Dies)
                 | Some wg' \<Rightarrow>
                     (case wg_Wait wg' rest of (tr, r) \<Rightarrow> (Listener ev # tr, r)))))"

text \<open>
  The callback stays registered after the wait: the events that are left run it too,
  until the context is cancelled or the session is torn down. The callback runs in the
  goroutine of the target, so a panic in it kills the process.
\<close>

fun deliver_rest :: "WaitGroup \<Rightarrow> occurrence list \<Rightarrow> step list \<times> WaitGroup option" where
  "deliver_rest wg [] = ([], Some wg)"
| "deliver_rest wg (CtxDone # rest) = ([], Some wg)"
| "deliver_rest wg (Deliver ev # rest) =
     (case listener ev wg of
        None \<Rightarrow> ([Listener ev], None)
      | Some wg' \<Rightarrow> (case deliver_rest wg' rest of (tr, r) \<Rightarrow> (Listener ev # tr, r)))"

section \<open>ConvertHtmlToPdf\<close>

text \<open>
  The loop over the options (lines 55 to 57). An \<open>Option\<close> is a function value and may
  be \<open>nil\<close> (\<open>None\<close>); calling it panics.
\<close>

fun apply_opts :: "nat \<Rightarrow> Option option list \<Rightarrow> options \<Rightarrow> step list \<times> options option" where
  "apply_opts i [] opts = ([], Some opts)"
| "apply_opts i (None # rest) opts = ([], None)"
| "apply_opts i (Some f # rest) opts =
     (case apply_opts (Suc i) rest (f opts) of (tr, r) \<Rightarrow> (CallOption i # tr, r))"

text \<open>
  The first action function (lines 65 to 82): add one to a fresh wait group, register
  the listener, fetch the frame tree, set the document content of its root frame, wait.
  Line 77 reads \<open>frameTree.Frame.ID\<close> unguarded: on a reply without a frame tree it
  panics with a nil dereference, in the goroutine of the call. The function yields the
  steps, the error it returns, the browser's state, and the wait group with the
  occurrences still to come.
\<close>

definition set_content_action :: "'b transport \<Rightarrow> 'b \<Rightarrow> string
    \<Rightarrow> step list \<times> (ext_error option \<times> WaitGroup \<times> occurrence list) outcome \<times> 'b" where
  "set_content_action T b htmlContent =
     (case getFrameTree T b of
        (Inl err, b1) \<Rightarrow> ([ListenTarget, GetFrameTree], Returns (Some err, 1, []), b1)
      | (Inr None, b1) \<Rightarrow> ([ListenTarget, GetFrameTree], Panics, b1)
      | (Inr (Some fid), b1) \<Rightarrow>
          (case setDocumentContent T b1 fid htmlContent of
             (Some err, b2) \<Rightarrow>
               ([ListenTarget, GetFrameTree, SetDocumentContent fid htmlContent],
                Returns (Some err, 1, []), b2)
           | (None, b2) \<Rightarrow>
               (case wg_Wait 1 (schedule T b2) of
                  (tr, Returns (wg, rest)) \<Rightarrow>
                    ([ListenTarget, GetFrameTree, SetDocumentContent fid htmlContent]
                       @ tr @ [WaitDone],
                     Returns (None, wg, rest), b2)
                | (tr, Blocks) \<Rightarrow>
                    ([ListenTarget, GetFrameTree, SetDocumentContent fid htmlContent] @ tr,
                     Blocks, b2)
                | (tr, Panics) \<Rightarrow>
                    ([ListenTarget, GetFrameTree, SetDocumentContent fid htmlContent] @ tr,
                     Panics, b2)
                | (tr, Dies) \<Rightarrow>
                    ([ListenTarget, GetFrameTree, SetDocumentContent fid htmlContent] @ tr,
                     Dies, b2))))"

text \<open>
  The second action function (lines 83 to 87): print with \<open>WithPrintBackground(false)\<close>
  and assign data and error to \<open>buf\<close> and \<open>err\<close>. The listener of the first action is
  still registered while it runs.
\<close>

definition print_action :: "'b transport \<Rightarrow> 'b \<Rightarrow> WaitGroup \<Rightarrow> occurrence list
    \<Rightarrow> step list \<times> (bytes \<times> ext_error option) outcome" where
  "print_action T b wg rest =
     (case printToPDF T b False of
        ((buf, err), b') \<Rightarrow>
          (case deliver_rest wg rest of
             (tr, None) \<Rightarrow> (PrintToPDF False # tr, Dies)
           | (tr, Some wg') \<Rightarrow> (PrintToPDF False # tr, Returns (buf, err))))"

text \<open>
  \<open>chromedp.Run\<close> with the three actions of lines 64 to 87: allocate, then each action
  in turn, stopping at the first error. The first component of a returned pair is the
  variable \<open>buf\<close> of line 62, which stays \<open>nil\<close> until the print action assigns it.
\<close>

definition chromedp_Run :: "'b transport \<Rightarrow> context \<Rightarrow> string
    \<Rightarrow> step list \<times> (bytes \<times> ext_error option) outcome" where
  "chromedp_Run T ctx htmlContent =
     (case allocate T ctx of
        Inl err \<Rightarrow> ([Allocate], Returns ([], Some err))
      | Inr b0 \<Rightarrow>
          (case navigate T b0 ''about:blank'' of
             (Some err, b1) \<Rightarrow> ([Allocate, Navigate ''about:blank''], Returns ([], Some err))
           | (None, b1) \<Rightarrow>
               (case set_content_action T b1 htmlContent of
                  (tr, Returns (Some err, wg, rest), b2) \<Rightarrow>
                    ([Allocate, Navigate ''about:blank''] @ tr, Returns ([], Some err))
                | (tr, Returns (None, wg, rest), b2) \<Rightarrow>
                    (case print_action T b2 wg rest of
                       (tr', r) \<Rightarrow> ([Allocate, Navigate ''about:blank''] @ tr @ tr', r))
                | (tr, Blocks, b2) \<Rightarrow> ([Allocate, Navigate ''about:blank''] @ tr, Blocks)
                | (tr, Panics, b2) \<Rightarrow> ([Allocate, Navigate ''about:blank''] @ tr, Panics)
                | (tr, Dies, b2) \<Rightarrow> ([Allocate, Navigate ''about:blank''] @ tr, Dies))))"

text \<open>
  Lines 53 to 93. The deferred \<open>cancel\<close> runs on every return, and when a panic
  unwinds the call after line 60; it does not run when the call never returns or the
  process dies. A \<open>nil\<close> option panics before line 60.
\<close>

definition ConvertHtmlToPdf :: "'b transport \<Rightarrow> context \<Rightarrow> string \<Rightarrow> Option option list
    \<Rightarrow> step list \<times> result outcome" where
  "ConvertHtmlToPdf T ctx htmlContent opts =
     (case apply_opts 0 opts getDefaultOptions of
        (tr0, None) \<Rightarrow> (tr0, Panics)
      | (tr0, Some options) \<Rightarrow>
          (case chromedp_Run T ctx htmlContent of
             (tr, Returns (buf, Some err)) \<Rightarrow>
               (tr0 @ NewContext ctx (logger options) # tr @ [Cancel],
                Returns ([], Some (Errorf_w ''failed to convert HTML to PDF: '' (External err))))
           | (tr, Returns (buf, None)) \<Rightarrow>
               (tr0 @ NewContext ctx (logger options) # tr @ [Cancel], Returns (buf, None))
           | (tr, Blocks) \<Rightarrow> (tr0 @ NewContext ctx (logger options) # tr, Blocks)
           | (tr, Panics) \<Rightarrow> (tr0 @ NewContext ctx (logger options) # tr @ [Cancel], Panics)
           | (tr, Dies) \<Rightarrow> (tr0 @ NewContext ctx (logger options) # tr, Dies)))"

section \<open>ConvertHtmlFileToPdf\<close>

text \<open>
  Lines 41 to 50. \<open>os.ReadFile\<close> is the parameter \<open>readFile\<close>; the conversion
  \<open>string(b)\<close> keeps the bytes as they are.
\<close>

definition ConvertHtmlFileToPdf :: "'b transport \<Rightarrow> (string \<Rightarrow> ext_error + bytes) \<Rightarrow> context
    \<Rightarrow> string \<Rightarrow> Option option list \<Rightarrow> step list \<times> result outcome" where
  "ConvertHtmlFileToPdf T readFile ctx fileName opts =
     (case readFile fileName of
        Inl err \<Rightarrow>
          (if os_IsNotExist err then ([ReadFile fileName], Returns ([], Some ErrHTMLFileNotFound))
           else ([ReadFile fileName],
                 Returns ([], Some (Errorf_w (''failed to read file '' @ fileName @ '': '')
                                       (External err)))))
      | Inr b \<Rightarrow>
          (case ConvertHtmlToPdf T ctx b opts of (tr, r) \<Rightarrow> (ReadFile fileName # tr, r)))"

section \<open>Reading a trace\<close>

text \<open>The requests a call sends to the browser, in order.\<close>

fun is_request :: "step \<Rightarrow> bool" where
  "is_request Allocate = True"
| "is_request (Navigate url) = True"
| "is_request GetFrameTree = True"
| "is_request (SetDocumentContent fid html) = True"
| "is_request (PrintToPDF bg) = True"
| "is_request (ReadFile p) = False"
| "is_request (CallOption i) = False"
| "is_request (NewContext ctx l) = False"
| "is_request ListenTarget = False"
| "is_request (Listener ev) = False"
| "is_request WaitDone = False"
| "is_request Cancel = False"

definition requests :: "step list \<Rightarrow> step list" where
  "requests tr = filter is_request tr"

fun is_SetDocumentContent :: "step \<Rightarrow> bool" where
  "is_SetDocumentContent (SetDocumentContent fid html) = True"
| "is_SetDocumentContent s = False"

fun is_PrintToPDF :: "step \<Rightarrow> bool" where
  "is_PrintToPDF (PrintToPDF bg) = True"
| "is_PrintToPDF s = False"

fun is_Listener :: "step \<Rightarrow> bool" where
  "is_Listener (Listener ev) = True"
| "is_Listener s = False"

text \<open>
  \<open>precedes P Q tr\<close>: no step with \<open>Q\<close> stands at or before the first step with
  \<open>P\<close>, that is, every step with \<open>Q\<close> has a step with \<open>P\<close> strictly before it.
\<close>

fun precedes :: "(step \<Rightarrow> bool) \<Rightarrow> (step \<Rightarrow> bool) \<Rightarrow> step list \<Rightarrow> bool" where
  "precedes P Q [] = True"
| "precedes P Q (s # tr) = (if Q s then False else if P s then True else precedes P Q tr)"

text \<open>
  Modelled from the spec: the debug logging of chromedp, which is not in the repository.
  The session routes its internal diagnostic stream, one line per protocol message,
  through the sink it was created with; with a null sink there is no output. A line is
  the sink that wrote it and the message.
\<close>

fun wire_message :: "step \<Rightarrow> string option" where
  "wire_message (Navigate url) = Some ''Page.navigate''"
| "wire_message GetFrameTree = Some ''Page.getFrameTree''"
| "wire_message (SetDocumentContent fid html) = Some ''Page.setDocumentContent''"
| "wire_message (PrintToPDF bg) = Some ''Page.printToPDF''"
| "wire_message (Listener EventLoadEventFired) = Some ''Page.loadEventFired''"
| "wire_message s = None"

fun session_sink :: "step list \<Rightarrow> sink option" where
  "session_sink [] = None"
| "session_sink (NewContext ctx l # tr) = l"
| "session_sink (s # tr) = session_sink tr"

definition diagnostic_output :: "step list \<Rightarrow> (sink \<times> string) list" where
  "diagnostic_output tr =
     (case session_sink tr of
        None \<Rightarrow> []
      | Some f \<Rightarrow> map (Pair f) (List.map_filter wire_message tr))"

section \<open>Browsers and file systems to run the model on\<close>

text \<open>
  A browser that does what Chrome does on a good day: its state is the document it
  holds, a content-set is followed by one load event, and printing gives a PDF of the
  document. A context that is already done makes the allocation fail with its error.
\<close>

definition fake_chrome :: "string transport" where
  "fake_chrome =
     \<lparr>allocate = (\<lambda>ctx. case ctx of Some e \<Rightarrow> Inl e | None \<Rightarrow> Inr []),
      navigate = (\<lambda>b url. (None, [])),
      getFrameTree = (\<lambda>b. (Inr (Some ''F1''), b)),
      setDocumentContent = (\<lambda>b fid html. (None, html)),
      schedule = (\<lambda>b. [Deliver EventLoadEventFired]),
      printToPDF = (\<lambda>b bg. ((''%PDF-1.4 '' @ b, None), b))\<rparr>"

text \<open>The same browser when the context is cancelled during the wait and no load event comes.\<close>

definition stalled_chrome :: "string transport" where
  "stalled_chrome = fake_chrome\<lparr>schedule := (\<lambda>b. [CtxDone])\<rparr>"

text \<open>A browser whose print reply carries no data and no error.\<close>

definition empty_pdf_chrome :: "string transport" where
  "empty_pdf_chrome = fake_chrome\<lparr>printToPDF := (\<lambda>b bg. (([], None), b))\<rparr>"




definition print_fails_chrome :: "string transport" where
  "print_fails_chrome =
     fake_chrome\<lparr>schedule := (\<lambda>b. [Deliver EventLoadEventFired, CtxDone]),
                 printToPDF := (\<lambda>b bg. (([], Some Canceled), b))\<rparr>"

text \<open>A file system with one readable file, one unreadable file and nothing else.\<close>

definition fake_fs :: "string \<Rightarrow> ext_error + bytes" where
  "fake_fs p =
     (if p = ''index.html'' then Inr ''<h1>Hi</h1>''
      else if p = ''secret.html'' then Inl (PathError ''open'' p EACCES)
      else Inl (PathError ''open'' p ENOENT))"

section \<open>What the pieces of a trace are made of\<close>

lemma apply_opts_steps: "apply_opts i opts os = (tr, r) \<Longrightarrow> s \<in> set tr \<Longrightarrow> \<exists>k. s = CallOption k"
proof (induction i opts os arbitrary: tr rule: apply_opts.induct)
  case (3 i f rest opts)
  then show ?case by (fastforce split: prod.splits)
qed simp_all

lemma apply_opts_append:
  "apply_opts i (opts @ [Some f]) os =
     (case apply_opts i opts os of
        (tr, None) \<Rightarrow> (tr, None)
      | (tr, Some os') \<Rightarrow> (tr @ [CallOption (i + length opts)], Some (f os')))"
proof (induction i opts os rule: apply_opts.induct)
  case (3 i g rest opts)
  then show ?case by (auto split: prod.splits option.splits)
qed simp_all

lemma apply_opts_no_nil:
  "None \<notin> set opts \<Longrightarrow> \<exists>tr os'. apply_opts i opts os = (tr, Some os')"
proof (induction i opts os rule: apply_opts.induct)
  case (3 i g rest opts)
  then show ?case by (auto split: prod.splits)
qed simp_all

lemma wg_Wait_steps: "wg_Wait wg occs = (tr, r) \<Longrightarrow> s \<in> set tr \<Longrightarrow> \<exists>ev. s = Listener ev"
proof (induction occs arbitrary: wg tr)
  case Nil
  then show ?case by (simp split: if_splits)
next
  case (Cons oc occs)
  show ?case
  proof (cases oc)
    case CtxDone
    with Cons show ?thesis by (auto split: if_splits)
  next
    case (Deliver ev)
    with Cons.prems Cons.IH show ?thesis
      by (fastforce split: if_splits option.splits prod.splits)
  qed
qed

lemma deliver_rest_steps: "deliver_rest wg occs = (tr, r) \<Longrightarrow> s \<in> set tr \<Longrightarrow> \<exists>ev. s = Listener ev"
proof (induction wg occs arbitrary: tr rule: deliver_rest.induct)
  case (3 wg ev rest)
  then show ?case by (fastforce split: option.splits prod.splits)
qed simp_all

lemma wg_Wait_load_seen:
  "wg_Wait wg occs = (tr, Returns (wg', rest)) \<Longrightarrow> wg \<noteq> 0 \<Longrightarrow>
     Listener EventLoadEventFired \<in> set tr"
proof (induction occs arbitrary: wg tr)
  case Nil
  then show ?case by simp
next
  case (Cons oc occs)
  show ?case
  proof (cases oc)
    case CtxDone
    with Cons show ?thesis by simp
  next
    case (Deliver ev)
    show ?thesis
    proof (cases "ev = EventLoadEventFired")
      case True
      with Cons.prems Deliver show ?thesis
        by (auto split: option.splits prod.splits)
    next
      case False
      with Cons.prems Deliver obtain tr' where
        "wg_Wait wg occs = (tr', Returns (wg', rest))" "tr = Listener ev # tr'"
        by (auto simp: listener_def split: prod.splits)
      with Cons.IH Cons.prems show ?thesis by auto
    qed
  qed
qed

lemma wg_Wait_blocks:
  "Deliver EventLoadEventFired \<notin> set (before_cancel occs) \<Longrightarrow> wg \<noteq> 0 \<Longrightarrow>
     wg_Wait wg occs = (tr, r) \<Longrightarrow> r = Blocks"
proof (induction occs arbitrary: wg tr)
  case Nil
  then show ?case by simp
next
  case (Cons oc occs)
  show ?case
  proof (cases oc)
    case CtxDone
    with Cons show ?thesis by simp
  next
    case (Deliver ev)
    with Cons.prems have ev: "ev \<noteq> EventLoadEventFired"
      and tl: "Deliver EventLoadEventFired \<notin> set (before_cancel occs)"
      by (auto simp: before_cancel_def)
    with Cons.prems Deliver obtain tr' where "wg_Wait wg occs = (tr', r)"
      by (auto simp: listener_def split: prod.splits)
    with Cons.IH tl Cons.prems show ?thesis by auto
  qed
qed

lemma precedes_iff:
  "precedes P Q tr \<longleftrightarrow> (\<forall>i<length tr. Q (tr ! i) \<longrightarrow> (\<exists>j<i. P (tr ! j)))"
proof (induction tr)
  case Nil
  then show ?case by simp
next
  case (Cons s tr)
  show ?case
  proof (cases "Q s")
    case True
    then show ?thesis by auto
  next
    case nq: False
    show ?thesis
    proof (cases "P s")
      case True
      with nq show ?thesis
        by (auto simp: nth_Cons split: nat.splits)
    next
      case False
      have "(\<forall>i<length (s # tr). Q ((s # tr) ! i) \<longrightarrow> (\<exists>j<i. P ((s # tr) ! j)))
          \<longleftrightarrow> (\<forall>i<length tr. Q (tr ! i) \<longrightarrow> (\<exists>j<i. P (tr ! j)))" (is "?L \<longleftrightarrow> ?R")
      proof
        assume l: ?L
        show ?R
        proof (intro allI impI)
          fix i assume "i < length tr" "Q (tr ! i)"
          with l obtain j where "j < Suc i" "P ((s # tr) ! j)" by force
          with False obtain j' where "j = Suc j'" by (cases j) auto
          with \<open>j < Suc i\<close> \<open>P ((s # tr) ! j)\<close> show "\<exists>j<i. P (tr ! j)" by auto
        qed
      next
        assume r: ?R
        show ?L
        proof (intro allI impI)
          fix i assume "i < length (s # tr)" "Q ((s # tr) ! i)"
          with nq obtain i' where i: "i = Suc i'" by (cases i) auto
          with \<open>i < length (s # tr)\<close> \<open>Q ((s # tr) ! i)\<close> r obtain j where "j < i'" "P (tr ! j)"
            by auto
          then have "Suc j < i \<and> P ((s # tr) ! Suc j)" using i by simp
          then show "\<exists>j<i. P ((s # tr) ! j)" by blast
        qed
      qed
      with nq False Cons show ?thesis by simp
    qed
  qed
qed


lemma wg_Wait_no_panic:
  "0 < wg \<Longrightarrow> wg_Wait wg occs = (tr, r) \<Longrightarrow> r \<noteq> Panics \<and> r \<noteq> Dies"
proof (induction occs arbitrary: wg tr)
  case Nil
  then show ?case by (auto split: if_splits)
next
  case (Cons oc occs)
  show ?case
  proof (cases oc)
    case CtxDone
    with Cons show ?thesis by auto
  next
    case (Deliver ev)
    show ?thesis
    proof (cases "ev = EventLoadEventFired")
      case False
      with Cons.prems Deliver obtain tr' where "wg_Wait wg occs = (tr', r)"
        by (auto simp: listener_def split: prod.splits)
      with Cons.IH Cons.prems show ?thesis by auto
    next
      case True
      show ?thesis
      proof (cases "wg = 1")
        case True
        with Cons.prems Deliver \<open>ev = EventLoadEventFired\<close> show ?thesis
          by (cases occs) (auto simp: listener_def wg_Done_def wg_Add_def)
      next
        case False
        with Cons.prems have pos: "0 < wg - 1" by simp
        from Cons.prems Deliver True pos obtain tr' where "wg_Wait (wg - 1) occs = (tr', r)"
          by (auto simp: listener_def wg_Done_def wg_Add_def split: prod.splits)
        with Cons.IH [of "wg - 1" tr'] pos show ?thesis by simp
      qed
    qed
  qed
qed

lemma steps_as_map: "(\<And>s. s \<in> set tr \<Longrightarrow> \<exists>x. s = f x) \<Longrightarrow> \<exists>xs. tr = map f xs"
  by (induction tr) (auto simp: Cons_eq_map_conv)

lemma ConvertHtmlToPdf_shape:
  obtains
    (nil_option) ks where
      "ConvertHtmlToPdf T ctx h opts = (map CallOption ks, Panics)"
  | (allocate_fails) ks l e where
      "ConvertHtmlToPdf T ctx h opts =
         (map CallOption ks @ [NewContext ctx l, Allocate, Cancel],
          Returns ([], Some (Errorf_w ''failed to convert HTML to PDF: '' (External e))))"
  | (navigate_fails) ks l e where
      "ConvertHtmlToPdf T ctx h opts =
         (map CallOption ks @ [NewContext ctx l, Allocate, Navigate ''about:blank'', Cancel],
          Returns ([], Some (Errorf_w ''failed to convert HTML to PDF: '' (External e))))"
  | (frame_tree_fails) ks l e where
      "ConvertHtmlToPdf T ctx h opts =
         (map CallOption ks @ [NewContext ctx l, Allocate, Navigate ''about:blank'',
            ListenTarget, GetFrameTree, Cancel],
          Returns ([], Some (Errorf_w ''failed to convert HTML to PDF: '' (External e))))"
  | (frame_tree_missing) ks l where
      "ConvertHtmlToPdf T ctx h opts =
         (map CallOption ks @ [NewContext ctx l, Allocate, Navigate ''about:blank'',
            ListenTarget, GetFrameTree, Cancel],
          Panics)"
  | (set_content_fails) ks l fid e where
      "ConvertHtmlToPdf T ctx h opts =
         (map CallOption ks @ [NewContext ctx l, Allocate, Navigate ''about:blank'',
            ListenTarget, GetFrameTree, SetDocumentContent fid h, Cancel],
          Returns ([], Some (Errorf_w ''failed to convert HTML to PDF: '' (External e))))"
  | (wait_blocks) ks l fid evs where
      "ConvertHtmlToPdf T ctx h opts =
         (map CallOption ks @ [NewContext ctx l, Allocate, Navigate ''about:blank'',
            ListenTarget, GetFrameTree, SetDocumentContent fid h] @ map Listener evs,
          Blocks)"
  | (late_event_panics) ks l fid evs evs' where
      "ConvertHtmlToPdf T ctx h opts =
         (map CallOption ks @ [NewContext ctx l, Allocate, Navigate ''about:blank'',
            ListenTarget, GetFrameTree, SetDocumentContent fid h] @ map Listener evs
            @ [WaitDone, PrintToPDF False] @ map Listener evs',
          Dies)"
      "EventLoadEventFired \<in> set evs"
  | (print_fails) ks l fid evs evs' e where
      "ConvertHtmlToPdf T ctx h opts =
         (map CallOption ks @ [NewContext ctx l, Allocate, Navigate ''about:blank'',
            ListenTarget, GetFrameTree, SetDocumentContent fid h] @ map Listener evs
            @ [WaitDone, PrintToPDF False] @ map Listener evs' @ [Cancel],
          Returns ([], Some (Errorf_w ''failed to convert HTML to PDF: '' (External e))))"
      "EventLoadEventFired \<in> set evs"
  | (printed) ks l fid evs evs' buf b b' where
      "ConvertHtmlToPdf T ctx h opts =
         (map CallOption ks @ [NewContext ctx l, Allocate, Navigate ''about:blank'',
            ListenTarget, GetFrameTree, SetDocumentContent fid h] @ map Listener evs
            @ [WaitDone, PrintToPDF False] @ map Listener evs' @ [Cancel],
          Returns (buf, None))"
      "EventLoadEventFired \<in> set evs"
      "printToPDF T b False = ((buf, None), b')"
proof -
  obtain tr0 r0 where a: "apply_opts 0 opts getDefaultOptions = (tr0, r0)"
    by fastforce
  obtain ks where ks: "tr0 = map CallOption ks"
    using steps_as_map [of tr0 CallOption] apply_opts_steps [OF a] by blast
  show thesis
  proof (cases r0)
    case None
    with a ks show thesis by (intro nil_option [of ks]) (simp add: ConvertHtmlToPdf_def)
  next
    case (Some os)
    note os = this
    show thesis
    proof (cases "allocate T ctx")
      case (Inl e)
      with a ks os show thesis
        by (intro allocate_fails [of ks "logger os" e])
           (simp add: ConvertHtmlToPdf_def chromedp_Run_def)
    next
      case (Inr b0)
      note b0 = this
      obtain r1 b1 where n: "navigate T b0 ''about:blank'' = (r1, b1)" by fastforce
      show thesis
      proof (cases r1)
        case (Some e)
        with a ks os b0 n show thesis
          by (intro navigate_fails [of ks "logger os" e])
             (simp add: ConvertHtmlToPdf_def chromedp_Run_def)
      next
        case None
        note r1 = this
        obtain r2 b2 where g: "getFrameTree T b1 = (r2, b2)" by fastforce
        show thesis
        proof (cases r2)
          case (Inl e)
          with a ks os b0 n r1 g show thesis
            by (intro frame_tree_fails [of ks "logger os" e])
               (simp add: ConvertHtmlToPdf_def chromedp_Run_def set_content_action_def)
        next
          case (Inr ofid)
          show thesis
          proof (cases ofid)
            case None
            with a ks os b0 n r1 g Inr show thesis
              by (intro frame_tree_missing [of ks "logger os"])
                 (simp add: ConvertHtmlToPdf_def chromedp_Run_def set_content_action_def)
          next
          case (Some fid)
          with Inr have fid: "r2 = Inr (Some fid)" by simp
          obtain r3 b3 where sc: "setDocumentContent T b2 fid h = (r3, b3)" by fastforce
          show thesis
          proof (cases r3)
            case (Some e)
            with a ks os b0 n r1 g fid sc show thesis
              by (intro set_content_fails [of ks "logger os" fid e])
                 (simp add: ConvertHtmlToPdf_def chromedp_Run_def set_content_action_def)
          next
            case None
            note r3 = this
            obtain trw rw where w: "wg_Wait 1 (schedule T b3) = (trw, rw)" by fastforce
            obtain evs where evs: "trw = map Listener evs"
              using steps_as_map [of trw Listener] wg_Wait_steps [OF w] by blast
            show thesis
            proof (cases rw)
              case Panics
              with wg_Wait_no_panic [OF _ w] show thesis by simp
            next
              case Dies
              with wg_Wait_no_panic [OF _ w] show thesis by simp
            next
              case Blocks
              with a ks os b0 n r1 g fid sc r3 w evs show thesis
                by (intro wait_blocks [of ks "logger os" fid evs])
                   (simp add: ConvertHtmlToPdf_def chromedp_Run_def set_content_action_def)
            next
              case (Returns wr)
              obtain wg' rest where wr: "wr = (wg', rest)" by fastforce
              have seen: "EventLoadEventFired \<in> set evs"
                using wg_Wait_load_seen [of 1 "schedule T b3" trw wg' rest] w Returns wr evs
                by auto
              obtain buf perr b4 where p: "printToPDF T b3 False = ((buf, perr), b4)"
                by (metis surj_pair)
              obtain trd rd where d: "deliver_rest wg' rest = (trd, rd)" by fastforce
              obtain evs' where evs': "trd = map Listener evs'"
                using steps_as_map [of trd Listener] deliver_rest_steps [OF d] by blast
              have run: "set_content_action T b1 h =
                  ([ListenTarget, GetFrameTree, SetDocumentContent fid h] @ trw @ [WaitDone],
                   Returns (None, wg', rest), b3)"
                using g fid sc r3 w Returns wr by (simp add: set_content_action_def)
              show thesis
              proof (cases rd)
                case None
                with a ks os b0 n r1 run p d evs evs' seen show thesis
                  by (intro late_event_panics [of ks "logger os" fid evs evs'])
                     (simp_all add: ConvertHtmlToPdf_def chromedp_Run_def print_action_def)
              next
                case (Some wg'')
                note rd = this
                show thesis
                proof (cases perr)
                  case (Some e)
                  with a ks os b0 n r1 run p d evs evs' seen rd show thesis
                    by (intro print_fails [of ks "logger os" fid evs evs' e])
                       (simp_all add: ConvertHtmlToPdf_def chromedp_Run_def print_action_def)
                next
                  case None
                  with a ks os b0 n r1 run p d evs evs' seen rd show thesis
                    by (intro printed [of ks "logger os" fid evs evs' buf b3 b4])
                       (simp_all add: ConvertHtmlToPdf_def chromedp_Run_def print_action_def)
                qed
              qed
            qed
          qed
          qed
        qed
      qed
    qed
  qed
qed

section \<open>Traces under the readers\<close>

lemma precedes_map_skip:
  "(\<And>x. \<not> P (f x)) \<Longrightarrow> (\<And>x. \<not> Q (f x)) \<Longrightarrow> precedes P Q (map f xs @ ys) = precedes P Q ys"
  by (induction xs) auto

lemma precedes_map_found:
  "x \<in> set xs \<Longrightarrow> P (f x) \<Longrightarrow> (\<And>x. \<not> Q (f x)) \<Longrightarrow> precedes P Q (map f xs @ ys)"
  by (induction xs) auto

lemma precedes_map_end: "(\<And>x. \<not> Q (f x)) \<Longrightarrow> precedes P Q (map f xs)"
  by (induction xs) auto

lemma requests_CallOption [simp]: "requests (map CallOption ks @ tr) = requests tr"
  by (induction ks) (auto simp: requests_def)

lemma requests_Listener [simp]: "requests (map Listener evs @ tr) = requests tr"
  by (induction evs) (auto simp: requests_def)

lemma requests_Listener_end [simp]: "requests (map Listener evs) = []"
  by (induction evs) (auto simp: requests_def)

lemma requests_CallOption_end [simp]: "requests (map CallOption ks) = []"
  by (induction ks) (auto simp: requests_def)

lemma requests_Cons [simp]:
  "requests (s # tr) = (if is_request s then s # requests tr else requests tr)"
  by (simp add: requests_def)

lemma requests_Nil [simp]: "requests [] = []"
  by (simp add: requests_def)

lemma in_map_Listener [simp]: "PrintToPDF bg \<notin> set (map Listener evs)"
  "PrintToPDF bg \<notin> set (map CallOption ks)"
  by auto

lemma session_sink_CallOption [simp]: "session_sink (map CallOption ks @ tr) = session_sink tr"
  by (induction ks) auto

lemma session_sink_CallOption_end [simp]: "session_sink (map CallOption ks) = None"
  by (induction ks) auto

section \<open>A schedule with one load event\<close>

lemma wg_Wait_one_load:
  "count_list (before_cancel occs) (Deliver EventLoadEventFired) = 1 \<Longrightarrow>
     \<exists>tr rest. wg_Wait 1 occs = (tr, Returns (0, rest))
        \<and> count_list (before_cancel rest) (Deliver EventLoadEventFired) = 0"
proof (induction occs)
  case Nil
  then show ?case by (simp add: before_cancel_def)
next
  case (Cons oc occs)
  show ?case
  proof (cases oc)
    case CtxDone
    with Cons.prems show ?thesis by (simp add: before_cancel_def)
  next
    case (Deliver ev)
    show ?thesis
    proof (cases "ev = EventLoadEventFired")
      case True
      with Cons.prems Deliver show ?thesis
        by (cases occs) (auto simp: listener_def wg_Done_def wg_Add_def before_cancel_def)
    next
      case False
      with Cons.prems Deliver
      have "count_list (before_cancel occs) (Deliver EventLoadEventFired) = 1"
        by (simp add: before_cancel_def)
      with Cons.IH obtain tr rest where
        "wg_Wait 1 occs = (tr, Returns (0, rest))"
        "count_list (before_cancel rest) (Deliver EventLoadEventFired) = 0"
        by blast
      with Deliver False show ?thesis by (simp add: listener_def)
    qed
  qed
qed

lemma deliver_rest_no_load:
  "count_list (before_cancel occs) (Deliver EventLoadEventFired) = 0 \<Longrightarrow>
     \<exists>tr. deliver_rest wg occs = (tr, Some wg)"
proof (induction wg occs rule: deliver_rest.induct)
  case (3 wg ev rest)
  then show ?case by (auto simp: listener_def before_cancel_def split: if_splits)
qed simp_all

lemma before_cancel_live: "CtxDone \<notin> set occs \<Longrightarrow> before_cancel occs = occs"
  by (auto simp: before_cancel_def)

section \<open>The results of ConvertHtmlToPdf\<close>

lemmas run_defs = ConvertHtmlToPdf_def chromedp_Run_def set_content_action_def
  print_action_def getDefaultOptions_def listener_def wg_Done_def wg_Add_def Errorf_w_def

text \<open>
  Claim C1, as far as the code goes. Whenever \<open>ConvertHtmlToPdf\<close> returns, it returns
  either no bytes with an error, or no error with exactly the bytes of the browser's
  print reply. It never returns bytes together with an error. Whether the bytes that come
  with a nil error are non-empty is the browser's doing: line 92 returns \<open>buf\<close> as the
  print action left it, without looking at its length.
\<close>

theorem ConvertHtmlToPdf_bytes_or_error:
  assumes "snd (ConvertHtmlToPdf T ctx h opts) = Returns (buf, err)"
  shows "(err \<noteq> None \<and> buf = [])
       \<or> (err = None \<and> (\<exists>b b'. printToPDF T b False = ((buf, None), b')))"
proof (cases rule: ConvertHtmlToPdf_shape [of T ctx h opts])
  case (printed ks l fid evs evs' buf' b b')
  with assms show ?thesis by auto
qed (use assms in auto)

text \<open>
  Claim C1, witness: on the well-behaved browser the call returns the printed document
  and no error, and the bytes are those of the print reply.
\<close>

theorem ConvertHtmlToPdf_bytes_or_error_witness:
  "snd (ConvertHtmlToPdf fake_chrome None ''<h1>Hi</h1>'' [])
     = Returns (''%PDF-1.4 <h1>Hi</h1>'', None)
   \<and> (\<exists>b b'. printToPDF fake_chrome b False = ((''%PDF-1.4 <h1>Hi</h1>'', None), b'))"
proof -
  have run: "snd (ConvertHtmlToPdf fake_chrome None ''<h1>Hi</h1>'' [])
      = Returns (''%PDF-1.4 <h1>Hi</h1>'', None)"
    by (simp add: run_defs fake_chrome_def)
  from ConvertHtmlToPdf_bytes_or_error [OF run] have
    "\<exists>b b'. printToPDF fake_chrome b False = ((''%PDF-1.4 <h1>Hi</h1>'', None), b')"
    by simp
  with run show ?thesis by simp
qed

text \<open>
  Claim C1 as stated says that a nil error never comes with no bytes. When the browser
  answers the print command with an empty document and no error, the call returns
  exactly that: no bytes and a nil error.
\<close>

theorem ConvertHtmlToPdf_empty_success:
  "snd (ConvertHtmlToPdf empty_pdf_chrome None ''<h1>Hi</h1>'' []) = Returns ([], None)"
  by (simp add: run_defs fake_chrome_def empty_pdf_chrome_def)

section \<open>Cancellation during the wait\<close>

text \<open>
  The wait does not hear the context. On any browser that accepts the requests up to the
  content-set and then delivers no load event before the context is cancelled (or none at
  all), the call never returns.
\<close>

lemma wait_is_deaf_to_cancellation:
  assumes "None \<notin> set opts"
    and "allocate T ctx = Inr b0"
    and "navigate T b0 ''about:blank'' = (None, b1)"
    and "getFrameTree T b1 = (Inr (Some fid), b2)"
    and "setDocumentContent T b2 fid h = (None, b3)"
    and "Deliver EventLoadEventFired \<notin> set (before_cancel (schedule T b3))"
  shows "snd (ConvertHtmlToPdf T ctx h opts) = Blocks"
proof -
  obtain tr0 os where a: "apply_opts 0 opts getDefaultOptions = (tr0, Some os)"
    using apply_opts_no_nil [OF assms(1)] by blast
  obtain trw rw where w: "wg_Wait 1 (schedule T b3) = (trw, rw)"
    by fastforce
  have "rw = Blocks"
    using wg_Wait_blocks [OF assms(6) _ w] by simp
  with a w assms(2-5) show ?thesis
    by (simp add: ConvertHtmlToPdf_def chromedp_Run_def set_content_action_def)
qed

text \<open>
  Claim C2 says that a context cancelled during the wait unblocks the call, which then
  returns an error and tears the session down. The wait of line 80 is \<open>wg.Wait()\<close>,
  which only the listener's \<open>wg.Done()\<close> ends. On a browser where the context is
  cancelled after the content was set and no load event follows, the call never returns:
  there is no result, and no \<open>Cancel\<close> step.
\<close>

theorem cancelled_wait_never_returns:
  "ConvertHtmlToPdf stalled_chrome None ''<h1>Hi</h1>'' [] =
     ([NewContext None (Some log_Printf), Allocate, Navigate ''about:blank'', ListenTarget,
       GetFrameTree, SetDocumentContent ''F1'' ''<h1>Hi</h1>''], Blocks)"
  by (simp add: run_defs fake_chrome_def stalled_chrome_def)

section \<open>Reading the file\<close>

text \<open>
  Claim C3. When the read fails with an error that \<open>os.IsNotExist\<close> recognises (the
  path does not exist), the call returns the sentinel \<open>ErrHTMLFileNotFound\<close>. When it
  fails in any other way, the call returns an error whose message names the path and the
  cause, which wraps the cause, and which \<open>errors.Is\<close> tells apart from the sentinel.
  An error of the conversion itself is not the sentinel either.
\<close>

theorem read_failures_are_classified:
  "(readFile p = Inl e \<and> os_IsNotExist e \<longrightarrow>
      snd (ConvertHtmlFileToPdf T readFile ctx p opts) = Returns ([], Some ErrHTMLFileNotFound))
   \<and> (readFile p = Inl e \<and> \<not> os_IsNotExist e \<longrightarrow>
      (\<exists>ioerr. snd (ConvertHtmlFileToPdf T readFile ctx p opts) = Returns ([], Some ioerr)
         \<and> Error ioerr = ''failed to read file '' @ p @ '': '' @ ext_Error e
         \<and> Unwrap ioerr = Some (External e)
         \<and> \<not> errors_Is ioerr ErrHTMLFileNotFound))
   \<and> (readFile p = Inr h \<and>
        snd (ConvertHtmlFileToPdf T readFile ctx p opts) = Returns (buf, Some converr) \<longrightarrow>
      \<not> errors_Is converr ErrHTMLFileNotFound)"
proof (intro conjI impI)
  assume "readFile p = Inl e \<and> os_IsNotExist e"
  then show "snd (ConvertHtmlFileToPdf T readFile ctx p opts)
      = Returns ([], Some ErrHTMLFileNotFound)"
    by (simp add: ConvertHtmlFileToPdf_def)
next
  assume "readFile p = Inl e \<and> \<not> os_IsNotExist e"
  then show "\<exists>ioerr. snd (ConvertHtmlFileToPdf T readFile ctx p opts) = Returns ([], Some ioerr)
         \<and> Error ioerr = ''failed to read file '' @ p @ '': '' @ ext_Error e
         \<and> Unwrap ioerr = Some (External e)
         \<and> \<not> errors_Is ioerr ErrHTMLFileNotFound"
    by (simp add: ConvertHtmlFileToPdf_def Errorf_w_def)
next
  assume a: "readFile p = Inr h \<and>
    snd (ConvertHtmlFileToPdf T readFile ctx p opts) = Returns (buf, Some converr)"
  then have r: "snd (ConvertHtmlToPdf T ctx h opts) = Returns (buf, Some converr)"
    by (auto simp: ConvertHtmlFileToPdf_def split: prod.splits)
  show "\<not> errors_Is converr ErrHTMLFileNotFound"
    by (cases rule: ConvertHtmlToPdf_shape [of T ctx h opts]) (use r in \<open>auto simp: Errorf_w_def\<close>)
qed

text \<open>
  Claim C3, witness: a missing file, a file that may not be read, and a readable file
  whose conversion fails.
\<close>

theorem read_failures_are_classified_witness:
  "snd (ConvertHtmlFileToPdf fake_chrome fake_fs None ''nope.html'' [])
     = Returns ([], Some ErrHTMLFileNotFound)
   \<and> (\<exists>ioerr. snd (ConvertHtmlFileToPdf fake_chrome fake_fs None ''secret.html'' [])
           = Returns ([], Some ioerr)
         \<and> Error ioerr = ''failed to read file secret.html: open secret.html: permission denied''
         \<and> Unwrap ioerr = Some (External (PathError ''open'' ''secret.html'' EACCES))
         \<and> \<not> errors_Is ioerr ErrHTMLFileNotFound)
   \<and> snd (ConvertHtmlFileToPdf print_fails_chrome fake_fs None ''index.html'' [])
       = Returns ([], Some (WrapError ''failed to convert HTML to PDF: context canceled''
                              (External Canceled)))
   \<and> \<not> errors_Is (WrapError ''failed to convert HTML to PDF: context canceled''
                     (External Canceled)) ErrHTMLFileNotFound"
proof -
  have a: "fake_fs ''nope.html'' = Inl (PathError ''open'' ''nope.html'' ENOENT)
      \<and> os_IsNotExist (PathError ''open'' ''nope.html'' ENOENT)"
    by (simp add: fake_fs_def)
  have b: "fake_fs ''secret.html'' = Inl (PathError ''open'' ''secret.html'' EACCES)
      \<and> \<not> os_IsNotExist (PathError ''open'' ''secret.html'' EACCES)"
    by (simp add: fake_fs_def)
  have c: "fake_fs ''index.html'' = Inr ''<h1>Hi</h1>''
      \<and> snd (ConvertHtmlFileToPdf print_fails_chrome fake_fs None ''index.html'' [])
       = Returns ([], Some (WrapError ''failed to convert HTML to PDF: context canceled''
                              (External Canceled)))"
    by (simp add: ConvertHtmlFileToPdf_def fake_fs_def run_defs fake_chrome_def
        print_fails_chrome_def)
  from a read_failures_are_classified
    [where readFile = fake_fs and p = "''nope.html''" and T = fake_chrome and ctx = None
       and opts = "[]" and e = "PathError ''open'' ''nope.html'' ENOENT"]
  have 1: "snd (ConvertHtmlFileToPdf fake_chrome fake_fs None ''nope.html'' [])
     = Returns ([], Some ErrHTMLFileNotFound)"
    by blast
  from b read_failures_are_classified
    [where readFile = fake_fs and p = "''secret.html''" and T = fake_chrome and ctx = None
       and opts = "[]" and e = "PathError ''open'' ''secret.html'' EACCES"]
  have 2: "\<exists>ioerr. snd (ConvertHtmlFileToPdf fake_chrome fake_fs None ''secret.html'' [])
           = Returns ([], Some ioerr)
         \<and> Error ioerr = ''failed to read file secret.html: open secret.html: permission denied''
         \<and> Unwrap ioerr = Some (External (PathError ''open'' ''secret.html'' EACCES))
         \<and> \<not> errors_Is ioerr ErrHTMLFileNotFound"
    by simp
  from c read_failures_are_classified
    [where readFile = fake_fs and p = "''index.html''" and T = print_fails_chrome and ctx = None
       and opts = "[]" and h = "''<h1>Hi</h1>''" and buf = "[]"
       and converr = "WrapError ''failed to convert HTML to PDF: context canceled''
                              (External Canceled)"]
  have 3: "\<not> errors_Is (WrapError ''failed to convert HTML to PDF: context canceled''
                     (External Canceled)) ErrHTMLFileNotFound"
    by blast
  from 1 2 3 c show ?thesis by blast
qed

text \<open>
  Claim C4. When the file is read and holds the text \<open>h\<close>, converting the file is
  converting \<open>h\<close> with the same context and the same options: the same steps after the
  read, and the same outcome, bytes and error included.
\<close>

theorem ConvertHtmlFileToPdf_delegates:
  "readFile p = Inr h \<Longrightarrow>
     ConvertHtmlFileToPdf T readFile ctx p opts =
       (ReadFile p # fst (ConvertHtmlToPdf T ctx h opts), snd (ConvertHtmlToPdf T ctx h opts))"
  by (simp add: ConvertHtmlFileToPdf_def split: prod.splits)

text \<open>Claim C4, witness: the readable file of the example file system.\<close>

theorem ConvertHtmlFileToPdf_delegates_witness:
  "fake_fs ''index.html'' = Inr ''<h1>Hi</h1>''
   \<and> ConvertHtmlFileToPdf fake_chrome fake_fs None ''index.html'' [] =
       (ReadFile ''index.html'' # fst (ConvertHtmlToPdf fake_chrome None ''<h1>Hi</h1>'' []),
        Returns (''%PDF-1.4 <h1>Hi</h1>'', None))"
proof -
  have rd: "fake_fs ''index.html'' = Inr ''<h1>Hi</h1>''" by (simp add: fake_fs_def)
  have run: "snd (ConvertHtmlToPdf fake_chrome None ''<h1>Hi</h1>'' [])
      = Returns (''%PDF-1.4 <h1>Hi</h1>'', None)"
    by (simp add: run_defs fake_chrome_def)
  from ConvertHtmlFileToPdf_delegates
    [where readFile = fake_fs and p = "''index.html''" and T = fake_chrome and ctx = None
       and opts = "[]", OF rd] rd run
  show ?thesis by simp
qed

section \<open>A nil logger\<close>

text \<open>
  Claim C5. \<open>WithLogger(nil)\<close> given last leaves the logger field \<open>nil\<close>, and the
  conversion then has the outcome it has without that option (the same bytes and error,
  the same blocking or panic) and sends the same requests; the session writes no
  diagnostic line. The package never calls the logger itself: line 59 hands it to the
  session, whose use of it is modelled from the spec.
\<close>

theorem nil_logger_only_silences:
  "logger (WithLogger None os0) = None
   \<and> snd (ConvertHtmlToPdf T ctx h (opts @ [Some (WithLogger None)]))
     = snd (ConvertHtmlToPdf T ctx h opts)
   \<and> requests (fst (ConvertHtmlToPdf T ctx h (opts @ [Some (WithLogger None)])))
     = requests (fst (ConvertHtmlToPdf T ctx h opts))
   \<and> diagnostic_output (fst (ConvertHtmlToPdf T ctx h (opts @ [Some (WithLogger None)]))) = []"
proof -
  obtain tr0 r0 where a: "apply_opts 0 opts getDefaultOptions = (tr0, r0)"
    by fastforce
  obtain ks where ks: "tr0 = map CallOption ks"
    using steps_as_map [of tr0 CallOption] apply_opts_steps [OF a] by blast
  obtain tr r where run: "chromedp_Run T ctx h = (tr, r)"
    by fastforce
  have field: "logger (WithLogger None os0) = None"
    by (simp add: WithLogger_def)
  show ?thesis
  proof (cases r0)
    case None
    with a ks field show ?thesis
      by (simp add: ConvertHtmlToPdf_def apply_opts_append diagnostic_output_def)
  next
    case (Some os)
    have nil: "logger (WithLogger None os) = None"
      by (simp add: WithLogger_def)
    have app: "apply_opts 0 (opts @ [Some (WithLogger None)]) getDefaultOptions
        = (map CallOption (ks @ [length opts]), Some (WithLogger None os))"
      using a ks Some by (simp add: apply_opts_append)
    show ?thesis
    proof (cases r)
      case (Returns res)
      obtain buf err where res: "res = (buf, err)" by fastforce
      show ?thesis
      proof (cases err)
        case None
        with a ks Some run Returns res nil field show ?thesis
          unfolding ConvertHtmlToPdf_def app
          by (simp add: diagnostic_output_def del: map_append)
      next
        case (Some e)
        with a ks \<open>r0 = Some os\<close> run Returns res nil field show ?thesis
          unfolding ConvertHtmlToPdf_def app
          by (simp add: diagnostic_output_def del: map_append)
      qed
    next
      case Blocks
      with a ks Some run nil field show ?thesis
        unfolding ConvertHtmlToPdf_def app
        by (simp add: diagnostic_output_def del: map_append)
    next
      case Panics
      with a ks Some run nil field show ?thesis
        unfolding ConvertHtmlToPdf_def app
        by (simp add: diagnostic_output_def del: map_append)
    next
      case Dies
      with a ks Some run nil field show ?thesis
        unfolding ConvertHtmlToPdf_def app
        by (simp add: diagnostic_output_def del: map_append)
    qed
  qed
qed

text \<open>
  Claim C5, witness: with the nil logger the well-behaved browser still prints the
  document and nothing is logged, where the default logger writes five lines.
\<close>

theorem nil_logger_only_silences_witness:
  "snd (ConvertHtmlToPdf fake_chrome None ''<h1>Hi</h1>'' [Some (WithLogger None)])
     = Returns (''%PDF-1.4 <h1>Hi</h1>'', None)
   \<and> diagnostic_output (fst (ConvertHtmlToPdf fake_chrome None ''<h1>Hi</h1>''
        [Some (WithLogger None)])) = []
   \<and> diagnostic_output (fst (ConvertHtmlToPdf fake_chrome None ''<h1>Hi</h1>'' [])) =
       [(log_Printf, ''Page.navigate''), (log_Printf, ''Page.getFrameTree''),
        (log_Printf, ''Page.setDocumentContent''), (log_Printf, ''Page.loadEventFired''),
        (log_Printf, ''Page.printToPDF'')]"
proof -
  have run: "snd (ConvertHtmlToPdf fake_chrome None ''<h1>Hi</h1>'' [])
      = Returns (''%PDF-1.4 <h1>Hi</h1>'', None)"
    by (simp add: run_defs fake_chrome_def)
  have loud: "diagnostic_output (fst (ConvertHtmlToPdf fake_chrome None ''<h1>Hi</h1>'' [])) =
       [(log_Printf, ''Page.navigate''), (log_Printf, ''Page.getFrameTree''),
        (log_Printf, ''Page.setDocumentContent''), (log_Printf, ''Page.loadEventFired''),
        (log_Printf, ''Page.printToPDF'')]"
    by (simp add: run_defs fake_chrome_def diagnostic_output_def List.map_filter_def)
  from nil_logger_only_silences [of _ fake_chrome None "''<h1>Hi</h1>''" "[]"] run loud
  show ?thesis by simp
qed

section \<open>The order of the steps\<close>

text \<open>
  Claim C6. In the steps of every call, the listener is registered before any
  content-set request and before any event reaches the callback; the wait is over only
  after the callback has seen a load event; and the print request comes only after the
  wait is over. (\<open>precedes_iff\<close> spells \<open>precedes\<close> out by positions.)
\<close>

theorem listener_registered_before_content_set:
  "precedes (\<lambda>s. s = ListenTarget) is_SetDocumentContent (fst (ConvertHtmlToPdf T ctx h opts))
   \<and> precedes (\<lambda>s. s = ListenTarget) is_Listener (fst (ConvertHtmlToPdf T ctx h opts))
   \<and> precedes (\<lambda>s. s = Listener EventLoadEventFired) (\<lambda>s. s = WaitDone)
        (fst (ConvertHtmlToPdf T ctx h opts))
   \<and> precedes (\<lambda>s. s = WaitDone) is_PrintToPDF (fst (ConvertHtmlToPdf T ctx h opts))"
proof (cases rule: ConvertHtmlToPdf_shape [of T ctx h opts])
  case (nil_option ks)
  then show ?thesis by (simp add: precedes_map_end)
next
  case (allocate_fails ks l e)
  then show ?thesis by (simp add: precedes_map_skip)
next
  case (navigate_fails ks l e)
  then show ?thesis by (simp add: precedes_map_skip)
next
  case (frame_tree_fails ks l e)
  then show ?thesis by (simp add: precedes_map_skip)
next
  case (frame_tree_missing ks l)
  then show ?thesis by (simp add: precedes_map_skip)
next
  case (set_content_fails ks l fid e)
  then show ?thesis by (simp add: precedes_map_skip)
next
  case (wait_blocks ks l fid evs)
  then show ?thesis by (simp add: precedes_map_skip precedes_map_end)
next
  case (late_event_panics ks l fid evs evs')
  then show ?thesis by (simp add: precedes_map_skip precedes_map_found)
next
  case (print_fails ks l fid evs evs' e)
  then show ?thesis by (simp add: precedes_map_skip precedes_map_found)
next
  case (printed ks l fid evs evs' buf b b')
  then show ?thesis by (simp add: precedes_map_skip precedes_map_found)
qed

text \<open>
  Claim C6, witness: the steps of a successful conversion, in which the content-set
  and the print both occur.
\<close>

theorem listener_registered_before_content_set_witness:
  "fst (ConvertHtmlToPdf fake_chrome None ''<h1>Hi</h1>'' []) =
     [NewContext None (Some log_Printf), Allocate, Navigate ''about:blank'', ListenTarget,
      GetFrameTree, SetDocumentContent ''F1'' ''<h1>Hi</h1>'', Listener EventLoadEventFired,
      WaitDone, PrintToPDF False, Cancel]
   \<and> precedes (\<lambda>s. s = ListenTarget) is_SetDocumentContent
        (fst (ConvertHtmlToPdf fake_chrome None ''<h1>Hi</h1>'' []))
   \<and> precedes (\<lambda>s. s = WaitDone) is_PrintToPDF
        (fst (ConvertHtmlToPdf fake_chrome None ''<h1>Hi</h1>'' []))"
proof -
  have tr: "fst (ConvertHtmlToPdf fake_chrome None ''<h1>Hi</h1>'' []) =
     [NewContext None (Some log_Printf), Allocate, Navigate ''about:blank'', ListenTarget,
      GetFrameTree, SetDocumentContent ''F1'' ''<h1>Hi</h1>'', Listener EventLoadEventFired,
      WaitDone, PrintToPDF False, Cancel]"
    by (simp add: run_defs fake_chrome_def)
  from listener_registered_before_content_set [of fake_chrome None "''<h1>Hi</h1>''" "[]"]
  have "precedes (\<lambda>s. s = ListenTarget) is_SetDocumentContent
          (fst (ConvertHtmlToPdf fake_chrome None ''<h1>Hi</h1>'' []))"
    and "precedes (\<lambda>s. s = WaitDone) is_PrintToPDF
          (fst (ConvertHtmlToPdf fake_chrome None ''<h1>Hi</h1>'' []))"
    by blast+
  with tr show ?thesis by blast
qed

section \<open>Failures of the conversion\<close>




section \<open>The print request\<close>

text \<open>
  Claim C8. Every print request of a call asks for no background graphics
  (\<open>WithPrintBackground(false)\<close>), and a call that returns without error has sent one.
\<close>

theorem print_background_is_false:
  "(\<forall>bg. PrintToPDF bg \<in> set (fst (ConvertHtmlToPdf T ctx h opts)) \<longrightarrow> bg = False)
   \<and> (snd (ConvertHtmlToPdf T ctx h opts) = Returns (buf, None) \<longrightarrow>
        PrintToPDF False \<in> set (fst (ConvertHtmlToPdf T ctx h opts)))"
  by (cases rule: ConvertHtmlToPdf_shape [of T ctx h opts]) auto

text \<open>
  Claim C8, witness: a successful conversion sends the print request with \<open>false\<close>
  and none with \<open>true\<close>.
\<close>

theorem print_background_is_false_witness:
  "snd (ConvertHtmlToPdf fake_chrome None ''<h1>Hi</h1>'' [])
     = Returns (''%PDF-1.4 <h1>Hi</h1>'', None)
   \<and> PrintToPDF False \<in> set (fst (ConvertHtmlToPdf fake_chrome None ''<h1>Hi</h1>'' []))
   \<and> PrintToPDF True \<notin> set (fst (ConvertHtmlToPdf fake_chrome None ''<h1>Hi</h1>'' []))"
proof -
  have run: "snd (ConvertHtmlToPdf fake_chrome None ''<h1>Hi</h1>'' [])
      = Returns (''%PDF-1.4 <h1>Hi</h1>'', None)"
    by (simp add: run_defs fake_chrome_def)
  from print_background_is_false
    [of fake_chrome None "''<h1>Hi</h1>''" "[]" "''%PDF-1.4 <h1>Hi</h1>''"] run
  show ?thesis by blast
qed

section \<open>The empty document\<close>

text \<open>
  Claim C9, as far as the code goes. The empty string takes the same path as any other
  content; nothing in the package rejects it. When no option is nil, the context is live
  at the call and is not cancelled during it, the browser accepts the four requests and
  delivers one load event, the call returns the browser's print reply as it is, with no
  error: a document that starts with \<open>%PDF\<close>, and so is not empty, whenever the reply
  is one.
\<close>

theorem empty_html_is_converted:
  assumes "None \<notin> set opts"
    and "allocate T None = Inr b0"
    and "navigate T b0 ''about:blank'' = (None, b1)"
    and "getFrameTree T b1 = (Inr (Some fid), b2)"
    and "setDocumentContent T b2 fid [] = (None, b3)"
    and "CtxDone \<notin> set (schedule T b3)"
    and "count_list (schedule T b3) (Deliver EventLoadEventFired) = 1"
    and "printToPDF T b3 False = ((pdf, None), b4)"
  shows "snd (ConvertHtmlToPdf T None [] opts) = Returns (pdf, None)
     \<and> (take 4 pdf = ''%PDF'' \<longrightarrow>
          (\<exists>out. snd (ConvertHtmlToPdf T None [] opts) = Returns (out, None)
             \<and> take 4 out = ''%PDF'' \<and> out \<noteq> []))"
proof -
  obtain tr0 os where a: "apply_opts 0 opts getDefaultOptions = (tr0, Some os)"
    using apply_opts_no_nil [OF assms(1)] by blast
  have one: "count_list (before_cancel (schedule T b3)) (Deliver EventLoadEventFired) = 1"
    using assms(6,7) by (simp add: before_cancel_live)
  obtain trw rest where w: "wg_Wait 1 (schedule T b3) = (trw, Returns (0, rest))"
    and rest: "count_list (before_cancel rest) (Deliver EventLoadEventFired) = 0"
    using wg_Wait_one_load [OF one] by blast
  obtain trd where d: "deliver_rest 0 rest = (trd, Some 0)"
    using deliver_rest_no_load [OF rest] by blast
  have run: "snd (ConvertHtmlToPdf T None [] opts) = Returns (pdf, None)"
    using a w d assms(2-5,8)
    by (simp add: ConvertHtmlToPdf_def chromedp_Run_def set_content_action_def print_action_def)
  have "pdf \<noteq> []" if "take 4 pdf = ''%PDF''"
    using that by auto
  with run show ?thesis by simp
qed

text \<open>
  Claim C9, witness: on the well-behaved browser, with a live context and an option
  given, the empty string gives the PDF of the empty document.
\<close>

theorem empty_html_is_converted_witness:
  "snd (ConvertHtmlToPdf fake_chrome None [] [Some (WithLogger (Some (Custom 0)))])
     = Returns (''%PDF-1.4 '', None)
   \<and> (\<exists>out. snd (ConvertHtmlToPdf fake_chrome None [] [Some (WithLogger (Some (Custom 0)))])
              = Returns (out, None)
         \<and> take 4 out = ''%PDF'' \<and> out \<noteq> [])"
proof -
  have 1: "None \<notin> set [Some (WithLogger (Some (Custom 0)))]" by simp
  have 2: "allocate fake_chrome None = Inr []" by (simp add: fake_chrome_def)
  have 3: "navigate fake_chrome [] ''about:blank'' = (None, [])" by (simp add: fake_chrome_def)
  have 4: "getFrameTree fake_chrome [] = (Inr (Some ''F1''), [])" by (simp add: fake_chrome_def)
  have 5: "setDocumentContent fake_chrome [] ''F1'' [] = (None, [])" by (simp add: fake_chrome_def)
  have 6: "CtxDone \<notin> set (schedule fake_chrome [])" by (simp add: fake_chrome_def)
  have 7: "count_list (schedule fake_chrome []) (Deliver EventLoadEventFired) = 1"
    by (simp add: fake_chrome_def)
  have 8: "printToPDF fake_chrome [] False = ((''%PDF-1.4 '', None), [])"
    by (simp add: fake_chrome_def)
  have 9: "take 4 ''%PDF-1.4 '' = ''%PDF''" by simp
  from empty_html_is_converted [OF 1 2 3 4 5 6 7 8] 9 show ?thesis by blast
qed

text \<open>
  Claim C9 as stated says that the empty string gives a well-formed, non-empty result.
  With a live context that is never cancelled, on a browser that accepts every request
  and answers the print with no data and no error, the call returns no bytes and a nil
  error: not an error, and not a document either.
\<close>

theorem empty_html_empty_result:
  "CtxDone \<notin> set (schedule empty_pdf_chrome [])
   \<and> snd (ConvertHtmlToPdf empty_pdf_chrome None [] []) = Returns ([], None)"
  by (simp add: run_defs fake_chrome_def empty_pdf_chrome_def)

section \<open>A failed read\<close>

text \<open>
  Claim C10. When the read fails, for whatever reason, the call does nothing but the
  read: no option is called, no context is created, no request goes to the browser. It
  returns an error and no bytes.
\<close>

theorem read_failure_issues_nothing:
  "readFile p = Inl e \<Longrightarrow>
     fst (ConvertHtmlFileToPdf T readFile ctx p opts) = [ReadFile p]
     \<and> (\<exists>err. snd (ConvertHtmlFileToPdf T readFile ctx p opts) = Returns ([], Some err))"
  by (simp add: ConvertHtmlFileToPdf_def)

text \<open>Claim C10, witness: the file that may not be read, with an option given.\<close>

theorem read_failure_issues_nothing_witness:
  "fake_fs ''secret.html'' = Inl (PathError ''open'' ''secret.html'' EACCES)
   \<and> fst (ConvertHtmlFileToPdf fake_chrome fake_fs None ''secret.html'' [Some (WithLogger None)])
       = [ReadFile ''secret.html'']
   \<and> (\<exists>err. snd (ConvertHtmlFileToPdf fake_chrome fake_fs None ''secret.html''
                  [Some (WithLogger None)]) = Returns ([], Some err))"
proof -
  have rd: "fake_fs ''secret.html'' = Inl (PathError ''open'' ''secret.html'' EACCES)"
    by (simp add: fake_fs_def)
  from read_failure_issues_nothing
    [where readFile = fake_fs and p = "''secret.html''" and T = fake_chrome and ctx = None
       and opts = "[Some (WithLogger None)]", OF rd] rd
  show ?thesis by simp
qed

end
